theory Spec2Isabelle
  imports Main
begin

section \<open>The wallet store of \<^verbatim>\<open>src/store/walletStore.js\<close>\<close>

text \<open>
  The store is a single Zustand object: six state fields, the internal field
  \<^verbatim>\<open>_listeners\<close>, and the actions that read it with \<^verbatim>\<open>get()\<close> and merge
  a partial object into it with \<^verbatim>\<open>set({...})\<close>. The actions talk to the browser
  global \<^verbatim>\<open>window.ethereum\<close>. A world is the store together with that global.

  JavaScript strings are modelled as \<^typ>\<open>string\<close>, one \<^typ>\<open>char\<close> per code unit
  (code units below 256). \<^verbatim>\<open>null\<close> is \<^term>\<open>None\<close>.
\<close>

subsection \<open>Data\<close>

text \<open>\<^verbatim>\<open>status: 'idle' | 'connecting' | 'connected' | 'error'\<close>\<close>

datatype status = Idle | Connecting | Connected | Error

text \<open>
  A JavaScript number as far as the store uses it: the chain id is the result of
  \<^verbatim>\<open>Number(bigint)\<close> or of \<^verbatim>\<open>parseInt(s, 16)\<close>, so it is an integer or NaN.
  \<open>JInt n\<close> stands for the double nearest to \<open>n\<close>; the two coincide for
  \<open>\<bar>n\<bar> < 2 ^ 53\<close>, and the model is exact in that range only.
\<close>

datatype jsnum = JNaN | JInt int

text \<open>
  An error object as the \<^verbatim>\<open>catch\<close> block of \<^verbatim>\<open>connect\<close> reads it: \<^verbatim>\<open>err.code\<close>
  and \<^verbatim>\<open>err.message\<close>, each possibly undefined. A code is a number (the wallet's
  own codes, such as 4001) or a string (the codes of ethers, such as
  \<^verbatim>\<open>'ACTION_REJECTED'\<close>): the store reaches the wallet through
  \<^verbatim>\<open>ethers.BrowserProvider\<close> only, and the error that the \<^verbatim>\<open>catch\<close> block gets is
  the one ethers throws.
\<close>

datatype js_code = Num int | Str string

record js_error =
  code :: "js_code option"
  message :: "string option"

text \<open>The two event names the store subscribes to.\<close>

datatype event = AccountsChanged | ChainChanged

text \<open>
  \<^verbatim>\<open>window.ethereum\<close>, as far as the store can tell: the handlers registered with
  \<^verbatim>\<open>on\<close> (event name and the identity of the closure, in registration order) and
  the number of \<^verbatim>\<open>getBalance\<close> reads the store has asked of it.
\<close>

record provider =
  handlers :: "(event \<times> nat) list"
  balance_reads :: nat

text \<open>
  \<^verbatim>\<open>_listeners = { onAccountsChanged, onChainChanged }\<close>: the two closures that
  \<^verbatim>\<open>startListeners\<close> created, named by their identity.
\<close>

record listeners =
  onAccountsChanged_ref :: nat
  onChainChanged_ref :: nat

text \<open>
  The store (lines 32 to 37 and 209) and its environment: \<^verbatim>\<open>window.ethereum\<close>
  (\<^term>\<open>None\<close> when MetaMask is not installed) and the supply of closure identities.
  The field \<^verbatim>\<open>_listeners\<close> is \<open>stored_listeners\<close> here.

  \<open>requestAccounts_calls\<close> counts how many times the store has run line 77,
  \<^verbatim>\<open>provider.send('eth_requestAccounts', [])\<close>. When and how often ethers passes
  such a call on to \<^verbatim>\<open>window.ethereum\<close> is not the store's doing and is not
  modelled.
\<close>

record world =
  address :: "string option"
  balance :: "string option"
  network :: "string option"
  chainId :: "jsnum option"
  status :: status
  error :: "string option"
  stored_listeners :: "listeners option"
  ethereum :: "provider option"
  next_closure :: nat
  requestAccounts_calls :: nat

definition initial :: "provider option \<Rightarrow> world" where
  "initial eth =
     \<lparr>address = None, balance = None, network = None, chainId = None,
      status = Idle, error = None, stored_listeners = None,
      ethereum = eth, next_closure = 0, requestAccounts_calls = 0\<rparr>"

definition no_handlers :: provider where
  "no_handlers = \<lparr>handlers = [], balance_reads = 0\<rparr>"

subsection \<open>JavaScript primitives the store uses\<close>

text \<open>\<^verbatim>\<open>!address\<close>: a string or null is falsy when it is null or the empty string.\<close>

definition absent :: "string option \<Rightarrow> bool" where
  "absent a = (case a of None \<Rightarrow> True | Some s \<Rightarrow> s = [])"

text \<open>\<^verbatim>\<open>a || b\<close> on a string that may be undefined.\<close>

definition or_else :: "string option \<Rightarrow> string \<Rightarrow> string" where
  "or_else a b = (if absent a then b else the a)"

text \<open>
  \<^verbatim>\<open>`${n}`\<close> for a number: decimal digits, a minus sign for a negative integer,
  \<^verbatim>\<open>NaN\<close> for NaN (exact for integers below \<open>10 ^ 21\<close> that a double holds).
\<close>

fun show_nat :: "nat \<Rightarrow> string" where
  "show_nat n =
     (if n < 10 then [''0123456789'' ! n]
      else show_nat (n div 10) @ [''0123456789'' ! (n mod 10)])"

definition number_to_string :: "jsnum \<Rightarrow> string" where
  "number_to_string x =
     (case x of
        JNaN \<Rightarrow> ''NaN''
      | JInt i \<Rightarrow> (if i < 0 then ''-'' @ show_nat (nat (- i)) else show_nat (nat i)))"

text \<open>\<^verbatim>\<open>NETWORK_NAMES\<close> (lines 19 to 24).\<close>

definition NETWORK_NAMES :: "(int \<times> string) list" where
  "NETWORK_NAMES =
     [(1, ''Ethereum Mainnet''),
      (11155111, ''Sepolia Testnet''),
      (137, ''Polygon''),
      (80001, ''Mumbai Testnet'')]"

text \<open>
  \<^verbatim>\<open>NETWORK_NAMES[chainId] || `Chain ID: ${chainId}`\<close> (lines 97 and 180). The
  property key of NaN is \<^verbatim>\<open>"NaN"\<close>, which the table does not have.
\<close>

definition network_name :: "jsnum \<Rightarrow> string" where
  "network_name x =
     or_else (case x of JNaN \<Rightarrow> None | JInt i \<Rightarrow> map_of NETWORK_NAMES i)
             (''Chain ID: '' @ number_to_string x)"

subsection \<open>Listeners\<close>

text \<open>
  The message of the TypeError that reading a property of \<^verbatim>\<open>undefined\<close> throws
  (the engine chooses the text; this is V8's).
\<close>

definition type_error :: "string \<Rightarrow> js_error" where
  "type_error prop =
     \<lparr>code = None,
      message = Some (''Cannot read properties of undefined (reading ''
                      @ [CHR 0x27] @ prop @ [CHR 0x27] @ '')'')\<rparr>"

text \<open>
  An action that can throw returns the error, if any, and the world as it is when
  the action returns or throws.

  \<^verbatim>\<open>startListeners\<close> (lines 158 to 192): two fresh closures are registered on
  \<^verbatim>\<open>window.ethereum\<close> and stored in \<^verbatim>\<open>_listeners\<close>, overwriting what was there.
  The \<^verbatim>\<open>on\<close> and \<^verbatim>\<open>removeListener\<close> of a provider that is there do what an event
  emitter's do and do not throw.
\<close>

definition startListeners :: "world \<Rightarrow> js_error option \<times> world" where
  "startListeners w =
     (case ethereum w of
        None \<Rightarrow> (Some (type_error ''on''), w)
      | Some p \<Rightarrow>
          let k = next_closure w;
              p' = p\<lparr>handlers := handlers p @ [(AccountsChanged, k), (ChainChanged, Suc k)]\<rparr>
          in (None, w\<lparr>ethereum := Some p',
                      stored_listeners := Some \<lparr>onAccountsChanged_ref = k, onChainChanged_ref = Suc k\<rparr>,
                      next_closure := Suc (Suc k)\<rparr>))"

text \<open>\<^verbatim>\<open>stopListeners\<close> (lines 198 to 205).\<close>

definition stopListeners :: "world \<Rightarrow> js_error option \<times> world" where
  "stopListeners w =
     (case stored_listeners w of
        None \<Rightarrow> (None, w)
      | Some l \<Rightarrow>
          (case ethereum w of
             None \<Rightarrow> (Some (type_error ''removeListener''), w)
           | Some p \<Rightarrow>
               let p' = p\<lparr>handlers :=
                           remove1 (ChainChanged, onChainChanged_ref l)
                             (remove1 (AccountsChanged, onAccountsChanged_ref l) (handlers p))\<rparr>
               in (None, w\<lparr>ethereum := Some p', stored_listeners := None\<rparr>)))"

subsection \<open>connect\<close>

text \<open>
  \<^verbatim>\<open>connect\<close> is an async function with five awaits inside one \<^verbatim>\<open>try\<close> (lines 77,
  82, 85, 91 and 95) and no store access between them. What the provider does
  with the call is the outcome: one of the awaits throws, or all five resolve
  to the address, the balance string
  \<^verbatim>\<open>parseFloat(ethers.formatEther(rawBalance)).toFixed(4)\<close> and the number
  \<^verbatim>\<open>Number(networkInfo.chainId)\<close>.
\<close>

datatype stage = AtRequest | AtSigner | AtAddress | AtBalance | AtNetwork

datatype connect_outcome =
    Threw stage js_error
  | Resolved string string int

text \<open>Whether \<^verbatim>\<open>provider.getBalance\<close> (line 91) was called before the outcome.\<close>

fun reads_balance :: "connect_outcome \<Rightarrow> bool" where
  "reads_balance (Threw AtBalance _) = True"
| "reads_balance (Threw AtNetwork _) = True"
| "reads_balance (Threw _ _) = False"
| "reads_balance (Resolved _ _ _) = True"

definition log_read :: "world \<Rightarrow> world" where
  "log_read w =
     w\<lparr>ethereum := map_option (\<lambda>p. p\<lparr>balance_reads := Suc (balance_reads p)\<rparr>) (ethereum w)\<rparr>"

definition log_request :: "world \<Rightarrow> world" where
  "log_request w = w\<lparr>requestAccounts_calls := Suc (requestAccounts_calls w)\<rparr>"

text \<open>The \<^verbatim>\<open>catch\<close> block (lines 107 to 114).\<close>

definition connect_catch :: "js_error \<Rightarrow> world \<Rightarrow> world" where
  "connect_catch err w =
     (let msg = (if code err = Some (Num 4001)
                 then ''Connection rejected. Please try again.''
                 else or_else (message err) ''Something went wrong.'')
      in w\<lparr>status := Error, error := Some msg\<rparr>)"

text \<open>
  The synchronous part of a call, up to the first await (lines 60 to 77): the
  check, the \<^verbatim>\<open>set\<close> and the call of \<^verbatim>\<open>provider.send\<close>. The result says whether
  the call is now suspended on the provider.
\<close>

definition connect_begin :: "world \<Rightarrow> bool \<times> world" where
  "connect_begin w =
     (if ethereum w = None
      then (False, w\<lparr>error := Some ''MetaMask not found. Install it at metamask.io'',
                     status := Error\<rparr>)
      else (True, log_request (w\<lparr>status := Connecting, error := None\<rparr>)))"

text \<open>The rest of the call, run when the provider has answered (lines 77 to 114).\<close>

definition connect_resume :: "connect_outcome \<Rightarrow> world \<Rightarrow> world" where
  "connect_resume out w =
     (let w1 = (if reads_balance out then log_read w else w)
      in case out of
           Threw _ err \<Rightarrow> connect_catch err w1
         | Resolved a b c \<Rightarrow>
             let w2 = w1\<lparr>address := Some a, balance := Some b,
                         network := Some (network_name (JInt c)),
                         chainId := Some (JInt c), status := Connected\<rparr>
             in (case startListeners w2 of
                   (None, w3) \<Rightarrow> w3
                 | (Some err, w3) \<Rightarrow> connect_catch err w3))"

text \<open>A whole call with nothing else running between its two parts.\<close>

definition connect :: "connect_outcome \<Rightarrow> world \<Rightarrow> world" where
  "connect out w =
     (case connect_begin w of
        (False, w') \<Rightarrow> w'
      | (True, w') \<Rightarrow> connect_resume out w')"

subsection \<open>disconnect and refreshBalance\<close>

text \<open>
  \<^verbatim>\<open>disconnect\<close> (lines 122 to 134). When \<^verbatim>\<open>stopListeners\<close> throws, the
  \<^verbatim>\<open>set\<close> after it does not run.
\<close>

definition disconnect :: "world \<Rightarrow> js_error option \<times> world" where
  "disconnect w =
     (case stopListeners w of
        (Some err, w') \<Rightarrow> (Some err, w')
      | (None, w') \<Rightarrow>
          (None, w'\<lparr>address := None, balance := None, network := None,
                     chainId := None, status := Idle, error := None\<rparr>))"

text \<open>
  What the provider does with the \<^verbatim>\<open>getBalance\<close> of \<^verbatim>\<open>refreshBalance\<close>: it
  throws, or it resolves and \<^verbatim>\<open>parseFloat(ethers.formatEther(rawBalance)).toFixed(4)\<close>
  is the given string.
\<close>

datatype balance_outcome = ReadThrew | ReadResolved string

text \<open>
  \<^verbatim>\<open>refreshBalance\<close> (lines 140 to 152), as one step. Without
  \<^verbatim>\<open>window.ethereum\<close> nothing can be read: whatever is thrown inside the \<^verbatim>\<open>try\<close>
  is dropped by the empty \<^verbatim>\<open>catch\<close>.
\<close>

definition refreshBalance :: "balance_outcome \<Rightarrow> world \<Rightarrow> world" where
  "refreshBalance out w =
     (if absent (address w) then w
      else if ethereum w = None then w
      else (case out of
              ReadThrew \<Rightarrow> log_read w
            | ReadResolved b \<Rightarrow> (log_read w)\<lparr>balance := Some b\<rparr>))"

subsection \<open>The two handlers\<close>

text \<open>
  \<^verbatim>\<open>onAccountsChanged\<close> (lines 163 to 173). The handlers do not await the
  \<^verbatim>\<open>refreshBalance\<close> they start; its outcome is a parameter and it is run to its
  end here.
\<close>

definition onAccountsChanged ::
  "string list \<Rightarrow> balance_outcome \<Rightarrow> world \<Rightarrow> js_error option \<times> world" where
  "onAccountsChanged accounts out w =
     (if length accounts = 0 then disconnect w
      else (None, refreshBalance out (w\<lparr>address := Some (accounts ! 0)\<rparr>)))"

text \<open>
  \<^verbatim>\<open>parseInt(s, 16)\<close>: leading white space is skipped, then an optional sign,
  then an optional \<^verbatim>\<open>0x\<close> or \<^verbatim>\<open>0X\<close>; the longest run of hexadecimal digits that
  follows is the number, and NaN when the run is empty.
\<close>

definition is_white_space :: "char \<Rightarrow> bool" where
  "is_white_space c = (of_char c \<in> {9, 10, 11, 12, 13, 32, 160 :: nat})"

definition hex_digit :: "char \<Rightarrow> nat option" where
  "hex_digit c =
     (let n = of_char c :: nat
      in if 48 \<le> n \<and> n \<le> 57 then Some (n - 48)
         else if 97 \<le> n \<and> n \<le> 102 then Some (n - 87)
         else if 65 \<le> n \<and> n \<le> 70 then Some (n - 55)
         else None)"

definition is_hex_digit :: "char \<Rightarrow> bool" where
  "is_hex_digit c = (hex_digit c \<noteq> None)"

definition strip_sign :: "string \<Rightarrow> bool \<times> string" where
  "strip_sign s =
     (case s of
        c # r \<Rightarrow> (if c = CHR ''-'' then (True, r)
                  else if c = CHR ''+'' then (False, r)
                  else (False, s))
      | [] \<Rightarrow> (False, s))"

definition strip_prefix :: "string \<Rightarrow> string" where
  "strip_prefix s =
     (case s of
        c # x # r \<Rightarrow> (if c = CHR ''0'' \<and> (x = CHR ''x'' \<or> x = CHR ''X'') then r else s)
      | _ \<Rightarrow> s)"

definition parseInt16 :: "string \<Rightarrow> jsnum" where
  "parseInt16 s =
     (let (neg, s1) = strip_sign (dropWhile is_white_space s);
          z = takeWhile is_hex_digit (strip_prefix s1);
          n = foldl (\<lambda>acc c. 16 * acc + the (hex_digit c)) 0 z
      in if z = [] then JNaN
         else if neg then JInt (- int n)
         else JInt (int n))"

text \<open>\<^verbatim>\<open>onChainChanged\<close> (lines 178 to 183).\<close>

definition onChainChanged :: "string \<Rightarrow> balance_outcome \<Rightarrow> world \<Rightarrow> world" where
  "onChainChanged hexChainId out w =
     (let c = parseInt16 hexChainId;
          nw = network_name c
      in refreshBalance out (w\<lparr>chainId := Some c, network := Some nw\<rparr>))"

subsection \<open>The short address\<close>

text \<open>
  \<^verbatim>\<open>s.slice(start, end)\<close> and \<^verbatim>\<open>s.slice(start)\<close>: a negative index counts from the
  end, and both indices are clamped to the string.
\<close>

definition slice :: "string \<Rightarrow> int \<Rightarrow> int option \<Rightarrow> string" where
  "slice s start end =
     (let len = int (length s);
          clamp = (\<lambda>i. if i < 0 then max (len + i) 0 else min i len);
          from = clamp start;
          to = (case end of None \<Rightarrow> len | Some e \<Rightarrow> clamp e)
      in take (nat (to - from)) (drop (nat from) s))"

text \<open>\<^verbatim>\<open>getShortAddress\<close> (walletStore.js, lines 43 to 48).\<close>

definition getShortAddress :: "world \<Rightarrow> string option" where
  "getShortAddress w =
     (if absent (address w) then None
      else Some (slice (the (address w)) 0 (Some 6) @ ''...''
                 @ slice (the (address w)) (- 4) None))"

text \<open>\<^verbatim>\<open>shortAddress\<close> of the hook (useWallet.js, lines 79 to 81), on its own state.\<close>

definition shortAddress :: "string option \<Rightarrow> string option" where
  "shortAddress addr =
     (if \<not> absent addr
      then Some (slice (the addr) 0 (Some 6) @ ''...'' @ slice (the addr) (- 4) None)
      else None)"

subsection \<open>The hook of \<^verbatim>\<open>src/hooks/useWallet.js\<close>\<close>

text \<open>
  The hook keeps its own five state variables (lines 14 to 18); its table
  \<^verbatim>\<open>NETWORKS\<close> is the store's \<^verbatim>\<open>NETWORK_NAMES\<close>.
\<close>

record hook =
  hook_address :: "string option"
  hook_balance :: "string option"
  hook_network :: "string option"
  hook_status :: status
  hook_error :: "string option"

text \<open>
  \<^verbatim>\<open>connect\<close> of the hook (lines 20 to 68), as one step; the first argument says
  whether \<^verbatim>\<open>window.ethereum\<close> is there.
\<close>

definition useWallet_connect :: "bool \<Rightarrow> connect_outcome \<Rightarrow> hook \<Rightarrow> hook" where
  "useWallet_connect has_ethereum out h =
     (if \<not> has_ethereum
      then h\<lparr>hook_error := Some ''MetaMask not found. Please install it at metamask.io'',
              hook_status := Error\<rparr>
      else
        let h1 = h\<lparr>hook_status := Connecting, hook_error := None\<rparr>
        in case out of
             Resolved a b c \<Rightarrow>
               h1\<lparr>hook_address := Some a, hook_balance := Some b,
                   hook_network := Some (network_name (JInt c)),
                   hook_status := Connected\<rparr>
           | Threw _ err \<Rightarrow>
               (if code err = Some (Num 4001)
                then h1\<lparr>hook_error := Some ''Connection rejected. Please try again.''\<rparr>
                else h1\<lparr>hook_error := Some (or_else (message err) ''Something went wrong'')\<rparr>)
               \<lparr>hook_status := Error\<rparr>)"

subsection \<open>Calls in the order the event loop runs them\<close>

text \<open>
  \<^verbatim>\<open>connect\<close> is async and has no guard, so a caller can call \<^verbatim>\<open>connect\<close> or
  \<^verbatim>\<open>disconnect\<close> while earlier \<^verbatim>\<open>connect\<close> calls are suspended. What the event loop
  runs, one piece after the other, is: the synchronous part of a \<^verbatim>\<open>connect\<close>
  call, the rest of a suspended \<^verbatim>\<open>connect\<close> call with the outcome the provider
  gives it, or a \<^verbatim>\<open>disconnect\<close>. A suspended call has no state of its own that
  the rest of it reads, so the number of suspended calls is all that is kept. A
  \<open>Resume\<close> when no call is suspended stands for nothing and is skipped.
\<close>

datatype call = Begin | Resume connect_outcome | Disconnect

fun step :: "world \<times> nat \<Rightarrow> call \<Rightarrow> world \<times> nat" where
  "step (w, n) Begin =
     (case connect_begin w of
        (True, w') \<Rightarrow> (w', Suc n)
      | (False, w') \<Rightarrow> (w', n))"
| "step (w, n) (Resume out) =
     (case n of
        0 \<Rightarrow> (w, n)
      | Suc m \<Rightarrow> (connect_resume out w, m))"
| "step (w, n) Disconnect = (snd (disconnect w), n)"

fun steps :: "world \<times> nat \<Rightarrow> call list \<Rightarrow> world \<times> nat" where
  "steps s [] = s"
| "steps s (c # cs) = steps (step s c) cs"

text \<open>
  A provider that resolves a \<^verbatim>\<open>connect\<close> gives a non-empty account address.
\<close>

fun account_given :: "call \<Rightarrow> bool" where
  "account_given (Resume (Resolved a _ _)) = (a \<noteq> [])"
| "account_given _ = True"

text \<open>
  The runs in which \<^verbatim>\<open>connect\<close> is called only when no other \<^verbatim>\<open>connect\<close> is
  suspended and the status is not \<^verbatim>\<open>'connected'\<close>.
\<close>

fun connect_guarded :: "world \<times> nat \<Rightarrow> call list \<Rightarrow> bool" where
  "connect_guarded s [] = True"
| "connect_guarded s (c # cs) =
     ((c = Begin \<longrightarrow> snd s = 0 \<and> status (fst s) \<noteq> Connected)
      \<and> connect_guarded (step s c) cs)"

text \<open>
  What such a run keeps true: the address is there exactly when the status is
  connected, at most one call is suspended, and while one is, the provider is
  there and the status is not connected.
\<close>

definition guarded_state :: "world \<times> nat \<Rightarrow> bool" where
  "guarded_state s =
     ((\<not> absent (address (fst s)) \<longleftrightarrow> status (fst s) = Connected)
      \<and> snd s \<le> 1
      \<and> (snd s = 1 \<longrightarrow> ethereum (fst s) \<noteq> None \<and> status (fst s) \<noteq> Connected))"

subsection \<open>The specification's chain ids and labels\<close>

text \<open>
  The number a string of hexadecimal digits denotes, as the specification reads
  it: the last digit counts once, and every digit counts sixteen times the digit
  to its right. \<open>hex_value_rev\<close> takes the digits last one first.
\<close>

fun hex_value_rev :: "string \<Rightarrow> nat" where
  "hex_value_rev [] = 0"
| "hex_value_rev (d # ds) = the (hex_digit d) + 16 * hex_value_rev ds"

definition hex_value :: "string \<Rightarrow> nat" where
  "hex_value ds = hex_value_rev (rev ds)"

definition is_hex :: "string \<Rightarrow> bool" where
  "is_hex ds = (ds \<noteq> [] \<and> list_all is_hex_digit ds)"

text \<open>
  The specification's table from network id to label, with its rendering of an
  id the table does not have.
\<close>

definition chain_label :: "int \<Rightarrow> string" where
  "chain_label n =
     (if n = 1 then ''Ethereum Mainnet''
      else if n = 11155111 then ''Sepolia Testnet''
      else if n = 137 then ''Polygon''
      else if n = 80001 then ''Mumbai Testnet''
      else ''Chain ID: '' @ show_nat (nat n))"

section \<open>Properties\<close>

declare show_nat.simps [simp del]

lemmas connect_defs =
  connect_def connect_begin_def connect_resume_def connect_catch_def
  log_request_def log_read_def startListeners_def or_else_def absent_def

subsection \<open>A rejected connect\<close>

text \<open>
  C1, as the specification has it: when the provider rejects a \<^verbatim>\<open>connect\<close> with
  code 4001, the status goes back to idle and no error is kept. The store does
  otherwise. From the initial store with MetaMask installed, a rejection, which
  reaches the \<^verbatim>\<open>catch\<close> block as ethers throws it, with code
  \<^verbatim>\<open>'ACTION_REJECTED'\<close>, ends with status \<^verbatim>\<open>'error'\<close> and an error message.
\<close>

theorem connect_rejected_counterexample:
  "status (connect (Threw AtRequest \<lparr>code = Some (Str ''ACTION_REJECTED''),
                                     message = Some ''user rejected action''\<rparr>)
             (initial (Some no_handlers))) = Error
   \<and> status (connect (Threw AtRequest \<lparr>code = Some (Str ''ACTION_REJECTED''),
                                       message = Some ''user rejected action''\<rparr>)
             (initial (Some no_handlers))) \<noteq> Idle
   \<and> error (connect (Threw AtRequest \<lparr>code = Some (Str ''ACTION_REJECTED''),
                                      message = Some ''user rejected action''\<rparr>)
             (initial (Some no_handlers))) \<noteq> None"
  by (simp add: connect_defs initial_def no_handlers_def)

text \<open>
  C1, amended: a \<^verbatim>\<open>connect\<close> that the provider rejects, with the user-rejection
  code or with any other error and in whatever form the error reaches the
  \<^verbatim>\<open>catch\<close> block, is treated as an error: whatever the store was when the call
  resumed, the status is \<^verbatim>\<open>'error'\<close> and the error is a non-empty message; so it
  is at the end of a whole call made with MetaMask installed; and the hook's
  \<^verbatim>\<open>connect\<close> does the same. Which message is stored is left open.
\<close>

theorem connect_rejected:
  "status (connect_resume (Threw st err) w) = Error
   \<and> \<not> absent (error (connect_resume (Threw st err) w))
   \<and> (ethereum w \<noteq> None \<longrightarrow>
        status (connect (Threw st err) w) = Error
        \<and> \<not> absent (error (connect (Threw st err) w)))
   \<and> hook_status (useWallet_connect True (Threw st err) h) = Error
   \<and> \<not> absent (hook_error (useWallet_connect True (Threw st err) h))"
  by (auto simp: connect_defs useWallet_connect_def split: option.splits)

theorem connect_rejected_witness:
  "ethereum (initial (Some no_handlers)) \<noteq> None
   \<and> status (connect (Threw AtRequest \<lparr>code = Some (Str ''ACTION_REJECTED''),
                                       message = Some ''user rejected action''\<rparr>)
               (initial (Some no_handlers))) = Error
   \<and> \<not> absent (error (connect (Threw AtRequest \<lparr>code = Some (Str ''ACTION_REJECTED''),
                                                 message = Some ''user rejected action''\<rparr>)
                         (initial (Some no_handlers))))"
  using connect_rejected [of AtRequest
          "\<lparr>code = Some (Str ''ACTION_REJECTED''), message = Some ''user rejected action''\<rparr>"
          "initial (Some no_handlers)"]
  by (simp add: initial_def)

subsection \<open>Address and status along a run of calls\<close>

lemma step_keeps_connected_address:
  assumes "status (fst s) = Connected \<longrightarrow> \<not> absent (address (fst s))" and "account_given c"
  shows "status (fst (step s c)) = Connected \<longrightarrow> \<not> absent (address (fst (step s c)))"
proof (cases s)
  case (Pair w n)
  show ?thesis
  proof (cases c)
    case Begin
    then show ?thesis
      using assms by (simp add: Pair connect_defs)
  next
    case (Resume out)
    then show ?thesis
      using assms
      by (cases out; cases n) (auto simp: Pair connect_defs Let_def split: option.splits)
  next
    case Disconnect
    then show ?thesis
      using assms
      by (auto simp: Pair disconnect_def stopListeners_def Let_def split: option.splits)
  qed
qed

lemma steps_keep_connected_address:
  assumes "status (fst s) = Connected \<longrightarrow> \<not> absent (address (fst s))"
    and "list_all account_given cs"
  shows "status (fst (steps s cs)) = Connected \<longrightarrow> \<not> absent (address (fst (steps s cs)))"
  using assms
proof (induction cs arbitrary: s)
  case Nil
  then show ?case by simp
next
  case (Cons c cs)
  then show ?case using step_keeps_connected_address [of s c] by simp
qed

lemma step_keeps_guarded_state:
  assumes "guarded_state s" and "account_given c"
    and "c = Begin \<longrightarrow> snd s = 0 \<and> status (fst s) \<noteq> Connected"
  shows "guarded_state (step s c)"
proof (cases s)
  case (Pair w n)
  show ?thesis
  proof (cases c)
    case Begin
    then show ?thesis
      using assms by (auto simp: Pair guarded_state_def connect_defs)
  next
    case (Resume out)
    then show ?thesis
      using assms
      by (cases out; cases n)
         (auto simp: Pair guarded_state_def connect_defs Let_def split: option.splits)
  next
    case Disconnect
    then show ?thesis
      using assms
      by (auto simp: Pair guarded_state_def disconnect_def stopListeners_def Let_def absent_def
            split: option.splits)
  qed
qed

lemma steps_keep_guarded_state:
  assumes "guarded_state s" and "list_all account_given cs" and "connect_guarded s cs"
  shows "guarded_state (steps s cs)"
  using assms
proof (induction cs arbitrary: s)
  case Nil
  then show ?case by simp
next
  case (Cons c cs)
  then show ?case using step_keeps_guarded_state [of s c] by simp
qed

text \<open>
  C2, as the specification has it: after every sequence of \<^verbatim>\<open>connect\<close> and
  \<^verbatim>\<open>disconnect\<close> calls from the initial state, the address is present exactly
  when the status is connected. It fails for a \<^verbatim>\<open>connect\<close> that resolves followed
  by a \<^verbatim>\<open>connect\<close> that the provider rejects: the \<^verbatim>\<open>catch\<close> block sets the status
  and the error and leaves the address of the first call in the store.
\<close>

theorem address_iff_connected_counterexample:
  "status (fst (steps (initial (Some no_handlers), 0)
            [Begin, Resume (Resolved ''0x0879aF38'' ''0.0500'' 11155111),
             Begin, Resume (Threw AtRequest \<lparr>code = Some (Str ''ACTION_REJECTED''), message = None\<rparr>)])) = Error
   \<and> address (fst (steps (initial (Some no_handlers), 0)
            [Begin, Resume (Resolved ''0x0879aF38'' ''0.0500'' 11155111),
             Begin, Resume (Threw AtRequest \<lparr>code = Some (Str ''ACTION_REJECTED''), message = None\<rparr>)]))
       = Some ''0x0879aF38''
   \<and> \<not> absent (address (fst (steps (initial (Some no_handlers), 0)
            [Begin, Resume (Resolved ''0x0879aF38'' ''0.0500'' 11155111),
             Begin, Resume (Threw AtRequest \<lparr>code = Some (Str ''ACTION_REJECTED''), message = None\<rparr>)])))"
  by (simp add: connect_defs initial_def no_handlers_def Let_def)

text \<open>
  C2, amended: after every run of \<^verbatim>\<open>connect\<close> and \<^verbatim>\<open>disconnect\<close> calls from the
  initial state, calls in flight together included and whatever the provider
  answers to each \<^verbatim>\<open>connect\<close> (the accounts it gives being non-empty strings and
  its \<^verbatim>\<open>on\<close> not throwing), a connected status comes with an address; and when
  every \<^verbatim>\<open>connect\<close> of the run is called while no other \<^verbatim>\<open>connect\<close> is in flight
  and the status is not connected, the address is present exactly when the
  status is connected.
\<close>

theorem address_iff_connected:
  assumes "list_all account_given cs"
  shows "(status (fst (steps (initial eth, 0) cs)) = Connected \<longrightarrow>
            \<not> absent (address (fst (steps (initial eth, 0) cs))))
       \<and> (connect_guarded (initial eth, 0) cs \<longrightarrow>
            (\<not> absent (address (fst (steps (initial eth, 0) cs))) \<longleftrightarrow>
             status (fst (steps (initial eth, 0) cs)) = Connected))"
proof -
  have init: "guarded_state (initial eth, 0)"
    by (simp add: guarded_state_def initial_def absent_def)
  have start: "status (fst (initial eth, 0 :: nat)) = Connected \<longrightarrow>
                 \<not> absent (address (fst (initial eth, 0 :: nat)))"
    by (simp add: initial_def)
  from start assms
  have one: "status (fst (steps (initial eth, 0) cs)) = Connected \<longrightarrow>
               \<not> absent (address (fst (steps (initial eth, 0) cs)))"
    by (rule steps_keep_connected_address)
  have two: "connect_guarded (initial eth, 0) cs \<longrightarrow>
               (\<not> absent (address (fst (steps (initial eth, 0) cs))) \<longleftrightarrow>
                status (fst (steps (initial eth, 0) cs)) = Connected)"
  proof
    assume "connect_guarded (initial eth, 0) cs"
    with init assms have "guarded_state (steps (initial eth, 0) cs)"
      by (rule steps_keep_guarded_state)
    then show "\<not> absent (address (fst (steps (initial eth, 0) cs))) \<longleftrightarrow>
               status (fst (steps (initial eth, 0) cs)) = Connected"
      by (simp add: guarded_state_def)
  qed
  from one two show ?thesis by blast
qed

theorem address_iff_connected_witness:
  "list_all account_given
     [Begin, Disconnect, Resume (Resolved ''0x0879aF38'' ''0.0500'' 11155111), Disconnect,
      Begin, Resume (Threw AtRequest \<lparr>code = Some (Str ''ACTION_REJECTED''), message = None\<rparr>),
      Begin, Resume (Resolved ''0x0879aF38'' ''0.0500'' 1)]
   \<and> connect_guarded (initial (Some no_handlers), 0)
     [Begin, Disconnect, Resume (Resolved ''0x0879aF38'' ''0.0500'' 11155111), Disconnect,
      Begin, Resume (Threw AtRequest \<lparr>code = Some (Str ''ACTION_REJECTED''), message = None\<rparr>),
      Begin, Resume (Resolved ''0x0879aF38'' ''0.0500'' 1)]
   \<and> status (fst (steps (initial (Some no_handlers), 0)
     [Begin, Disconnect, Resume (Resolved ''0x0879aF38'' ''0.0500'' 11155111), Disconnect,
      Begin, Resume (Threw AtRequest \<lparr>code = Some (Str ''ACTION_REJECTED''), message = None\<rparr>),
      Begin, Resume (Resolved ''0x0879aF38'' ''0.0500'' 1)])) = Connected
   \<and> \<not> absent (address (fst (steps (initial (Some no_handlers), 0)
     [Begin, Disconnect, Resume (Resolved ''0x0879aF38'' ''0.0500'' 11155111), Disconnect,
      Begin, Resume (Threw AtRequest \<lparr>code = Some (Str ''ACTION_REJECTED''), message = None\<rparr>),
      Begin, Resume (Resolved ''0x0879aF38'' ''0.0500'' 1)])))"
  using address_iff_connected [of
     "[Begin, Disconnect, Resume (Resolved ''0x0879aF38'' ''0.0500'' 11155111), Disconnect,
       Begin, Resume (Threw AtRequest \<lparr>code = Some (Str ''ACTION_REJECTED''), message = None\<rparr>),
       Begin, Resume (Resolved ''0x0879aF38'' ''0.0500'' 1)]" "Some no_handlers"]
  by (simp add: connect_defs disconnect_def stopListeners_def initial_def no_handlers_def
      Let_def)

subsection \<open>A connect while another is in flight\<close>

text \<open>
  C3, as the specification has it: a \<^verbatim>\<open>connect\<close> called while the status is
  connecting does not ask the provider for the accounts again and does not
  register a second pair of listeners. The store has no such guard. Two calls
  started one after the other from the initial store run
  \<^verbatim>\<open>provider.send('eth_requestAccounts', [])\<close> twice, and when both resolve, four
  handlers are registered.
\<close>

theorem connect_while_connecting_counterexample:
  "status (snd (connect_begin (initial (Some no_handlers)))) = Connecting
   \<and> requestAccounts_calls
        (snd (connect_begin (snd (connect_begin (initial (Some no_handlers)))))) = 2
   \<and> map_option handlers
        (ethereum (connect_resume (Resolved ''0x0879aF38'' ''0.0500'' 1)
                    (connect_resume (Resolved ''0x0879aF38'' ''0.0500'' 1)
                      (snd (connect_begin (snd (connect_begin (initial (Some no_handlers)))))))))
       = Some [(AccountsChanged, 0), (ChainChanged, 1), (AccountsChanged, 2), (ChainChanged, 3)]"
  by (simp add: connect_defs initial_def no_handlers_def Let_def numeral_2_eq_2 numeral_3_eq_3)

text \<open>
  C3, amended: \<^verbatim>\<open>connect\<close> does not read the status. Called with MetaMask
  installed in any status, and so while the status is connecting, it starts a
  transition of its own: it sets the status to connecting, runs
  \<^verbatim>\<open>provider.send('eth_requestAccounts', [])\<close> once more and is suspended on it.
  Every call that resolves, whatever the status is by then, registers a fresh
  pair of handlers after those already registered and stores that pair in
  \<^verbatim>\<open>_listeners\<close>; two calls that resolve one after the other leave both pairs
  registered and the second pair stored.
\<close>

theorem connect_while_connecting:
  assumes "ethereum w = Some p"
  shows "fst (connect_begin w)
       \<and> status (snd (connect_begin w)) = Connecting
       \<and> requestAccounts_calls (snd (connect_begin w)) = Suc (requestAccounts_calls w)
       \<and> map_option handlers (ethereum (connect_resume (Resolved a b c) w))
           = Some (handlers p @ [(AccountsChanged, next_closure w),
                                 (ChainChanged, Suc (next_closure w))])
       \<and> stored_listeners (connect_resume (Resolved a b c) w)
           = Some \<lparr>onAccountsChanged_ref = next_closure w,
                    onChainChanged_ref = Suc (next_closure w)\<rparr>
       \<and> map_option handlers
           (ethereum (connect_resume (Resolved a' b' c') (connect_resume (Resolved a b c) w)))
           = Some (handlers p @ [(AccountsChanged, next_closure w),
                                 (ChainChanged, Suc (next_closure w)),
                                 (AccountsChanged, Suc (Suc (next_closure w))),
                                 (ChainChanged, Suc (Suc (Suc (next_closure w))))])
       \<and> stored_listeners (connect_resume (Resolved a' b' c') (connect_resume (Resolved a b c) w))
           = Some \<lparr>onAccountsChanged_ref = Suc (Suc (next_closure w)),
                    onChainChanged_ref = Suc (Suc (Suc (next_closure w)))\<rparr>"
  using assms by (simp add: connect_defs Let_def)

theorem connect_while_connecting_witness:
  "ethereum (snd (connect_begin (initial (Some no_handlers)))) = Some no_handlers
   \<and> status (snd (connect_begin (initial (Some no_handlers)))) = Connecting
   \<and> fst (connect_begin (snd (connect_begin (initial (Some no_handlers)))))
   \<and> status (snd (connect_begin (snd (connect_begin (initial (Some no_handlers))))))
       = Connecting
   \<and> requestAccounts_calls (snd (connect_begin (snd (connect_begin (initial (Some no_handlers))))))
       = 2
   \<and> map_option handlers
        (ethereum (connect_resume (Resolved ''0x0879aF38'' ''0.0500'' 1)
                    (snd (connect_begin (initial (Some no_handlers))))))
       = Some [(AccountsChanged, 0), (ChainChanged, 1)]
   \<and> map_option handlers
        (ethereum (connect_resume (Resolved ''0x0879aF38'' ''0.0500'' 1)
                    (connect_resume (Resolved ''0x0879aF38'' ''0.0500'' 1)
                      (snd (connect_begin (initial (Some no_handlers)))))))
       = Some [(AccountsChanged, 0), (ChainChanged, 1), (AccountsChanged, 2), (ChainChanged, 3)]"
  using connect_while_connecting
          [of "snd (connect_begin (initial (Some no_handlers)))" no_handlers
              "''0x0879aF38''" "''0.0500''" 1 "''0x0879aF38''" "''0.0500''" 1]
  by (simp add: connect_defs initial_def no_handlers_def Let_def numeral_2_eq_2 numeral_3_eq_3)

subsection \<open>disconnect\<close>

text \<open>
  C4: \<^verbatim>\<open>disconnect\<close> is idempotent. From every world, a second \<^verbatim>\<open>disconnect\<close> right
  after the first returns as the first did and leaves the world the first left;
  and \<^verbatim>\<open>stopListeners\<close> changes nothing when no listeners are stored.
\<close>

theorem disconnect_idempotent:
  "disconnect (snd (disconnect w)) = disconnect w
   \<and> (stored_listeners w = None \<longrightarrow> stopListeners w = (None, w))"
  by (simp add: disconnect_def stopListeners_def Let_def split: option.splits)

theorem disconnect_idempotent_witness:
  "stored_listeners (initial (Some no_handlers)) = None
   \<and> stopListeners (initial (Some no_handlers)) = (None, initial (Some no_handlers))
   \<and> disconnect (snd (disconnect (initial (Some no_handlers))))
       = disconnect (initial (Some no_handlers))
   \<and> snd (disconnect (initial (Some no_handlers))) = initial (Some no_handlers)"
  using disconnect_idempotent [of "initial (Some no_handlers)"]
  by (simp add: initial_def disconnect_def stopListeners_def)

text \<open>
  C5: an account-changed notification with an empty account list does what
  \<^verbatim>\<open>disconnect\<close> does, from every world and so from every connected one, whatever
  a balance read would have given.
\<close>

theorem accounts_changed_empty_is_disconnect:
  "onAccountsChanged [] out w = disconnect w"
  by (simp add: onAccountsChanged_def)

subsection \<open>refreshBalance\<close>

text \<open>
  C6: when the address is absent, \<^verbatim>\<open>refreshBalance\<close> changes nothing: the world
  after it is the world before it, the provider's log of balance reads included,
  whatever the provider would have answered.
\<close>

theorem refresh_without_address:
  assumes "absent (address w)"
  shows "refreshBalance out w = w
       \<and> map_option balance_reads (ethereum (refreshBalance out w))
           = map_option balance_reads (ethereum w)"
  using assms by (simp add: refreshBalance_def)

theorem refresh_without_address_witness:
  "absent (address (initial (Some no_handlers)))
   \<and> refreshBalance (ReadResolved ''0.0500'') (initial (Some no_handlers))
       = initial (Some no_handlers)
   \<and> map_option balance_reads
        (ethereum (refreshBalance (ReadResolved ''0.0500'') (initial (Some no_handlers))))
       = Some 0"
  using refresh_without_address [of "initial (Some no_handlers)" "ReadResolved ''0.0500''"]
  by (simp add: initial_def absent_def no_handlers_def)

text \<open>
  C7: when the address is present and the balance read throws, the balance, the
  status and the error are what they were, and so is every other field of the
  store.
\<close>

theorem refresh_failure_silent:
  assumes "\<not> absent (address w)"
  shows "balance (refreshBalance ReadThrew w) = balance w
       \<and> status (refreshBalance ReadThrew w) = status w
       \<and> error (refreshBalance ReadThrew w) = error w
       \<and> address (refreshBalance ReadThrew w) = address w
       \<and> network (refreshBalance ReadThrew w) = network w
       \<and> chainId (refreshBalance ReadThrew w) = chainId w
       \<and> stored_listeners (refreshBalance ReadThrew w) = stored_listeners w"
  by (simp add: refreshBalance_def log_read_def)

theorem refresh_failure_silent_witness:
  "\<not> absent (address (connect (Resolved ''0x0879aF38'' ''0.0500'' 1) (initial (Some no_handlers))))
   \<and> balance (refreshBalance ReadThrew
                (connect (Resolved ''0x0879aF38'' ''0.0500'' 1) (initial (Some no_handlers))))
       = Some ''0.0500''
   \<and> status (refreshBalance ReadThrew
                (connect (Resolved ''0x0879aF38'' ''0.0500'' 1) (initial (Some no_handlers))))
       = Connected
   \<and> error (refreshBalance ReadThrew
                (connect (Resolved ''0x0879aF38'' ''0.0500'' 1) (initial (Some no_handlers))))
       = None"
  using refresh_failure_silent
          [of "connect (Resolved ''0x0879aF38'' ''0.0500'' 1) (initial (Some no_handlers))"]
  by (simp add: connect_defs initial_def no_handlers_def Let_def)

subsection \<open>A chain-changed notification\<close>

lemma hex_value_rev_snoc:
  "hex_value_rev (xs @ [d]) = hex_value_rev xs + 16 ^ length xs * the (hex_digit d)"
  by (induction xs) (simp_all add: algebra_simps)

lemma foldl_hex_value:
  "foldl (\<lambda>acc c. 16 * acc + the (hex_digit c)) a ds = a * 16 ^ length ds + hex_value ds"
  by (induction ds arbitrary: a) (simp_all add: hex_value_def hex_value_rev_snoc algebra_simps)

lemma takeWhile_all: "list_all P ds \<Longrightarrow> takeWhile P ds = ds"
  by (induction ds) simp_all

lemma hex_digit_not_special:
  assumes "is_hex_digit c"
  shows "\<not> is_white_space c" and "c \<noteq> CHR ''-''" and "c \<noteq> CHR ''+''"
    and "c \<noteq> CHR ''x''" and "c \<noteq> CHR ''X''"
  using assms
  by (auto simp: is_hex_digit_def hex_digit_def is_white_space_def Let_def split: if_splits)

lemma parseInt16_digits:
  assumes "is_hex ds"
    and ws: "dropWhile is_white_space s = s"
    and sg: "strip_sign s = (False, s)"
    and px: "strip_prefix s = ds"
  shows "parseInt16 s = JInt (int (hex_value ds))"
proof -
  from assms(1) have tw: "takeWhile is_hex_digit ds = ds" and ne: "ds \<noteq> []"
    by (simp_all add: is_hex_def takeWhile_all)
  show ?thesis
    unfolding parseInt16_def ws sg
    by (simp only: px tw Let_def prod.case foldl_hex_value) (simp add: ne)
qed

lemma parseInt16_prefixed:
  assumes "is_hex ds" and "x = CHR ''x'' \<or> x = CHR ''X''"
  shows "parseInt16 (CHR ''0'' # x # ds) = JInt (int (hex_value ds))"
proof (rule parseInt16_digits [OF assms(1)])
  show "dropWhile is_white_space (CHR ''0'' # x # ds) = CHR ''0'' # x # ds"
    by (simp add: is_white_space_def)
  show "strip_sign (CHR ''0'' # x # ds) = (False, CHR ''0'' # x # ds)"
    by (simp add: strip_sign_def)
  show "strip_prefix (CHR ''0'' # x # ds) = ds"
    using assms(2) by (auto simp: strip_prefix_def)
qed

lemma parseInt16_bare:
  assumes "is_hex ds"
  shows "parseInt16 ds = JInt (int (hex_value ds))"
proof -
  from assms obtain c r
    where ds: "ds = c # r" and c: "is_hex_digit c" and r: "list_all is_hex_digit r"
    by (cases ds) (auto simp: is_hex_def)
  show ?thesis
  proof (rule parseInt16_digits [OF assms])
    show "dropWhile is_white_space ds = ds"
      using c by (simp add: ds hex_digit_not_special)
    show "strip_sign ds = (False, ds)"
      using c by (simp add: ds strip_sign_def hex_digit_not_special)
    show "strip_prefix ds = ds"
      using c r by (cases r) (auto simp: ds strip_prefix_def hex_digit_not_special)
  qed
qed

lemma parseInt16_hex:
  assumes "is_hex ds" and "pre = ''0x'' \<or> pre = ''0X'' \<or> pre = []"
  shows "parseInt16 (pre @ ds) = JInt (int (hex_value ds))"
  using assms parseInt16_bare [of ds] parseInt16_prefixed [of ds "CHR ''x''"]
    parseInt16_prefixed [of ds "CHR ''X''"]
  by auto

lemma network_name_label: "0 \<le> n \<Longrightarrow> network_name (JInt n) = chain_label n"
  by (simp add: network_name_def chain_label_def NETWORK_NAMES_def or_else_def absent_def
      number_to_string_def)

lemma refreshBalance_keeps_chain:
  "chainId (refreshBalance out w) = chainId w \<and> network (refreshBalance out w) = network w"
  by (cases out) (simp_all add: refreshBalance_def log_read_def)

text \<open>
  C8: a chain-changed notification that carries hexadecimal digits, with or
  without \<^verbatim>\<open>0x\<close> or \<^verbatim>\<open>0X\<close> before them, stores the number the digits denote
  as the chain id, and as the network the label the specification's table gives
  that number, \<^verbatim>\<open>Chain ID: \<close> and the number in decimal when the table does not
  have it. The numbers are those a double holds exactly, below \<open>2 ^ 53\<close>. For
  \<^verbatim>\<open>0xaa36a7\<close> the label is \<^verbatim>\<open>Sepolia Testnet\<close>.
\<close>

theorem chain_changed_label:
  assumes "is_hex ds" and "hex_value ds < 2 ^ 53"
    and "pre = ''0x'' \<or> pre = ''0X'' \<or> pre = []"
  shows "chainId (onChainChanged (pre @ ds) out w) = Some (JInt (int (hex_value ds)))
       \<and> network (onChainChanged (pre @ ds) out w)
           = Some (chain_label (int (hex_value ds)))"
  using parseInt16_hex [OF assms(1) assms(3)]
  by (simp add: onChainChanged_def Let_def refreshBalance_keeps_chain network_name_label)

theorem chain_changed_label_witness:
  "is_hex ''aa36a7'' \<and> hex_value ''aa36a7'' < 2 ^ 53
   \<and> chainId (onChainChanged ''0xaa36a7'' ReadThrew (initial None)) = Some (JInt 11155111)
   \<and> network (onChainChanged ''0xaa36a7'' ReadThrew (initial None)) = Some ''Sepolia Testnet''"
proof -
  have v: "hex_value ''aa36a7'' = 11155111"
    by (simp add: hex_value_def hex_digit_def)
  have h: "is_hex ''aa36a7''"
    by (simp add: is_hex_def is_hex_digit_def hex_digit_def)
  have b: "hex_value ''aa36a7'' < 2 ^ 53"
    by (simp add: v)
  show ?thesis
    using chain_changed_label [OF h b, of "''0x''" ReadThrew "initial None"] h b
    by (simp add: v chain_label_def)
qed

subsection \<open>connect without and with a provider\<close>

text \<open>
  C9: a \<^verbatim>\<open>connect\<close> called without \<^verbatim>\<open>window.ethereum\<close> ends with status
  \<^verbatim>\<open>'error'\<close> and a non-empty error; once the provider is there, a \<^verbatim>\<open>connect\<close>
  that resolves ends with status \<^verbatim>\<open>'connected'\<close> and the error null, right after
  the failed call and from every other world with a provider.
\<close>

theorem connect_recovers:
  assumes "ethereum w = None"
  shows "status (connect out w) = Error
       \<and> \<not> absent (error (connect out w))
       \<and> status (connect (Resolved a b c) ((connect out w)\<lparr>ethereum := Some p\<rparr>)) = Connected
       \<and> error (connect (Resolved a b c) ((connect out w)\<lparr>ethereum := Some p\<rparr>)) = None
       \<and> (\<forall>w'. ethereum w' \<noteq> None \<longrightarrow>
             status (connect (Resolved a b c) w') = Connected
             \<and> error (connect (Resolved a b c) w') = None)"
  using assms by (auto simp: connect_defs Let_def)

theorem connect_recovers_witness:
  "ethereum (initial None) = None
   \<and> status (connect (Resolved ''0x0879aF38'' ''0.0500'' 1) (initial None)) = Error
   \<and> error (connect (Resolved ''0x0879aF38'' ''0.0500'' 1) (initial None))
       = Some ''MetaMask not found. Install it at metamask.io''
   \<and> status (connect (Resolved ''0x0879aF38'' ''0.0500'' 1)
               ((connect (Resolved ''0x0879aF38'' ''0.0500'' 1) (initial None))
                  \<lparr>ethereum := Some no_handlers\<rparr>)) = Connected
   \<and> error (connect (Resolved ''0x0879aF38'' ''0.0500'' 1)
               ((connect (Resolved ''0x0879aF38'' ''0.0500'' 1) (initial None))
                  \<lparr>ethereum := Some no_handlers\<rparr>)) = None"
  using connect_recovers [of "initial None" "Resolved ''0x0879aF38'' ''0.0500'' 1"
                             "''0x0879aF38''" "''0.0500''" 1 no_handlers]
  by (simp add: connect_defs initial_def Let_def)

subsection \<open>The short address\<close>

lemma slice_first: "slice s 0 (Some 6) = take 6 s"
  by (simp add: slice_def Let_def min_def)

lemma slice_last: "slice s (- 4) None = drop (length s - 4) s"
  by (simp add: slice_def Let_def max_def nat_diff_distrib')

text \<open>
  C10: \<^verbatim>\<open>getShortAddress\<close> returns null exactly when the address is absent (null
  or, by the store's own test \<^verbatim>\<open>!address\<close>, the empty string); otherwise it returns
  the first six characters of the address, three dots and the last four
  characters of the address. The hook's \<^verbatim>\<open>shortAddress\<close> is the same function of
  the address.
\<close>

theorem short_address:
  "(getShortAddress w = None \<longleftrightarrow> absent (address w))
   \<and> (\<forall>a. address w = Some a \<and> a \<noteq> [] \<longrightarrow>
        getShortAddress w = Some (take 6 a @ ''...'' @ drop (length a - 4) a))
   \<and> shortAddress (address w) = getShortAddress w"
  by (simp add: getShortAddress_def shortAddress_def slice_first slice_last absent_def)

theorem short_address_witness:
  "address ((initial None)\<lparr>address := Some ''0x0879abcdef01aF38''\<rparr>) = Some ''0x0879abcdef01aF38''
   \<and> ''0x0879abcdef01aF38'' \<noteq> []
   \<and> getShortAddress ((initial None)\<lparr>address := Some ''0x0879abcdef01aF38''\<rparr>)
       = Some ''0x0879...aF38''
   \<and> getShortAddress (initial None) = None"
  using short_address [of "(initial None)\<lparr>address := Some ''0x0879abcdef01aF38''\<rparr>"]
        short_address [of "initial None"]
  by (simp add: initial_def absent_def)

end
